theory Spec2Isabelle
  imports Complex_Main
begin

section \<open>Python values, names and errors\<close>

text \<open>
  The source is one Python file, \<^verbatim>\<open>src/blocks/BasicBlocks.py\<close>, holding five
  \<^verbatim>\<open>nn.Module\<close> classes. Every exception a constructor or a \<^verbatim>\<open>forward\<close> can raise is a
  value of \<open>py_error\<close>. The first four constructors are raised by the interpreter while
  it evaluates an expression written in the source file itself; \<open>TorchError\<close> stands for
  every exception raised inside the tensor library (its \<^verbatim>\<open>ValueError\<close>s and
  \<^verbatim>\<open>RuntimeError\<close>s).
\<close>

datatype py_error =
    NameError string
  | AttributeError string
  | TypeError string
  | ZeroDivisionError
  | TorchError

fun from_library :: "py_error \<Rightarrow> bool" where
  "from_library TorchError = True"
| "from_library (NameError n) = False"
| "from_library (AttributeError n) = False"
| "from_library (TypeError n) = False"
| "from_library ZeroDivisionError = False"

text \<open>Sequencing of statements: the first exception ends the run.\<close>

definition and_then :: "py_error + 'a \<Rightarrow> ('a \<Rightarrow> py_error + 'b) \<Rightarrow> py_error + 'b" where
  "and_then r f = (case r of Inl e \<Rightarrow> Inl e | Inr v \<Rightarrow> f v)"

text \<open>
  The values a name of the source can be bound to: the integer and boolean arguments of
  the constructors, the three imported modules, the five classes, and any other object
  (\<^verbatim>\<open>self\<close>, the list \<^verbatim>\<open>conv_layers\<close>).
\<close>

datatype py_value =
  PyInt int | PyBool bool | PyModule string | PyClass string | PyObject string

text \<open>
  The names bound at module level by the \<^verbatim>\<open>import\<close> statements (lines 11 to 13) and the
  \<^verbatim>\<open>class\<close> statements (lines 15, 66, 115, 146, 181).
\<close>

definition module_globals :: "(string \<times> py_value) list" where
  "module_globals =
     [(''torch'', PyModule ''torch''),
      (''nn'', PyModule ''torch.nn''),
      (''F'', PyModule ''torch.nn.functional''),
      (''ResidualBlock'', PyClass ''ResidualBlock''),
      (''DenseBlock'', PyClass ''DenseBlock''),
      (''ConvBottleneck'', PyClass ''ConvBottleneck''),
      (''InceptionBlock'', PyClass ''InceptionBlock''),
      (''SqueezeAndExciteBlock'', PyClass ''SqueezeAndExciteBlock'')]"

text \<open>
  Reading a name inside a method: the local scope first, then the module's globals. None
  of the names the source reads is a Python builtin, so a name found in neither raises
  \<^verbatim>\<open>NameError\<close>.
\<close>

definition name_lookup :: "(string \<times> py_value) list \<Rightarrow> string \<Rightarrow> py_error + py_value" where
  "name_lookup locals n =
     (case map_of (locals @ module_globals) n of
        None \<Rightarrow> Inl (NameError n)
      | Some v \<Rightarrow> Inr v)"

text \<open>Truth value of an object in an \<^verbatim>\<open>if\<close> statement.\<close>

fun truthy :: "py_value \<Rightarrow> bool" where
  "truthy (PyBool b) = b"
| "truthy (PyInt i) = (i \<noteq> 0)"
| "truthy (PyModule m) = True"
| "truthy (PyClass c) = True"
| "truthy (PyObject c) = True"

definition read_flag :: "(string \<times> py_value) list \<Rightarrow> string \<Rightarrow> py_error + bool" where
  "read_flag locals n = and_then (name_lookup locals n) (\<lambda>v. Inr (truthy v))"

text \<open>An object used where the library needs an integer.\<close>

fun as_int :: "py_value \<Rightarrow> py_error + int" where
  "as_int (PyInt i) = Inr i"
| "as_int (PyBool b) = Inr (if b then 1 else 0)"
| "as_int (PyModule m) = Inl (TypeError m)"
| "as_int (PyClass c) = Inl (TypeError c)"
| "as_int (PyObject c) = Inl (TypeError c)"

text \<open>
  Python's \<^verbatim>\<open>//\<close> on integers: floor division, which is \<open>div\<close> on \<open>int\<close>, and
  \<^verbatim>\<open>ZeroDivisionError\<close> for a zero divisor (HOL's \<open>div\<close> would return 0 there).
\<close>

definition py_floordiv :: "int \<Rightarrow> int \<Rightarrow> py_error + int" where
  "py_floordiv a b = (if b = 0 then Inl ZeroDivisionError else Inr (a div b))"

section \<open>Channel arithmetic of the constructors\<close>

text \<open>
  Lines 26 to 30 of \<^verbatim>\<open>ResidualBlock.__init__\<close>:
  \<^verbatim>\<open>
    midle_channels =  in_channels + out_channels
    if midle_channels % 2 == 0:
        midle_channels = midle_channels // 2
    else:
        midle_channels = midle_channels // 2 + 1
  \<close>
\<close>

definition ResidualBlock_midle_channels :: "int \<Rightarrow> int \<Rightarrow> int" where
  "ResidualBlock_midle_channels in_channels out_channels =
     (let midle_channels = in_channels + out_channels
      in if midle_channels mod 2 = 0 then midle_channels div 2
         else midle_channels div 2 + 1)"

text \<open>
  Lines 75 to 79 of \<^verbatim>\<open>DenseBlock.__init__\<close>:
  \<^verbatim>\<open>
    midle_channels =  in_channels
    if in_channels % 2 == 0:
        midle_channels = midle_channels // 2
    else:
        midle_channels = midle_channels // 2 + 1
  \<close>
\<close>

definition DenseBlock_midle_channels :: "int \<Rightarrow> int" where
  "DenseBlock_midle_channels in_channels =
     (let midle_channels = in_channels
      in if in_channels mod 2 = 0 then midle_channels div 2
         else midle_channels div 2 + 1)"

section \<open>The tensor library, at the level of shapes\<close>

text \<open>
  A tensor is modelled by its shape, the list of its dimension sizes; its element values
  are floating-point numbers computed inside the library and are left out. The
  operations below are the shape rules of the library calls the source makes, with
  \<open>TorchError\<close> where the library refuses its arguments.
\<close>

type_synonym shape = "nat list"

definition numel :: "shape \<Rightarrow> nat" where
  "numel x = prod_list x"

text \<open>
  The modules the source instantiates. A \<^verbatim>\<open>BatchNorm2d\<close> carries the state its call
  changes: the \<^verbatim>\<open>training\<close> flag and the \<^verbatim>\<open>num_batches_tracked\<close> buffer.
\<close>

datatype layer =
    Conv2d (c_in: nat) (c_out: nat) (kernel_size: nat) (stride: nat) (padding: nat) (groups: nat)
  | BatchNorm2d (num_features: nat) (training: bool) (num_batches_tracked: nat)
  | ReLU
  | Linear (in_features: nat) (out_features: nat)
  | Sequential "layer list"

text \<open>
  The attributes of \<^verbatim>\<open>torch.nn\<close> that the source names and that exist. The source also
  writes \<^verbatim>\<open>nn.ReLu\<close>, which is not an attribute of the package (the class is
  \<^verbatim>\<open>nn.ReLU\<close>): reading it raises \<^verbatim>\<open>AttributeError\<close>.
\<close>

definition nn_attributes :: "string list" where
  "nn_attributes =
     [''Module'', ''ModuleList'', ''Sequential'', ''Conv2d'', ''BatchNorm2d'', ''ReLU'',
      ''Linear'']"

definition nn_getattr :: "string \<Rightarrow> py_error + string" where
  "nn_getattr n = (if n \<in> set nn_attributes then Inr n else Inl (AttributeError n))"

text \<open>
  \<^verbatim>\<open>nn.Conv2d(in_channels, out_channels, kernel_size, stride, padding, groups)\<close>. The
  constructor refuses a non-positive \<^verbatim>\<open>groups\<close> and channel counts that \<^verbatim>\<open>groups\<close>
  does not divide, and allocating the weight refuses a negative size. Kernel size, stride
  and padding are literals in every call of the source, hence naturals here.
\<close>

definition nn_Conv2d :: "int \<Rightarrow> int \<Rightarrow> nat \<Rightarrow> nat \<Rightarrow> nat \<Rightarrow> int \<Rightarrow> py_error + layer" where
  "nn_Conv2d in_channels out_channels k s p g =
     (if g \<le> 0 then Inl TorchError
      else if in_channels mod g \<noteq> 0 then Inl TorchError
      else if out_channels mod g \<noteq> 0 then Inl TorchError
      else if in_channels < 0 \<or> out_channels < 0 then Inl TorchError
      else Inr (Conv2d (nat in_channels) (nat out_channels) k s p (nat g)))"

text \<open>\<^verbatim>\<open>nn.BatchNorm2d(num_features)\<close>: a new module is in training mode.\<close>

definition nn_BatchNorm2d :: "int \<Rightarrow> py_error + layer" where
  "nn_BatchNorm2d n = (if n < 0 then Inl TorchError else Inr (BatchNorm2d (nat n) True 0))"

text \<open>\<^verbatim>\<open>nn.Linear(in_features, out_features)\<close>.\<close>

definition nn_Linear :: "int \<Rightarrow> int \<Rightarrow> py_error + layer" where
  "nn_Linear i out =
     (if i < 0 \<or> out < 0 then Inl TorchError else Inr (Linear (nat i) (nat out)))"

text \<open>
  Output size of a sliding window over one spatial dimension:
  \<open>\<lfloor>(size + 2 * padding - kernel) / stride\<rfloor> + 1\<close>, for a window that fits.
\<close>

definition window_out :: "nat \<Rightarrow> nat \<Rightarrow> nat \<Rightarrow> nat \<Rightarrow> nat" where
  "window_out n k s p = (n + 2 * p - k) div s + 1"

text \<open>
  Operations on images take a batch \<open>[N, C, H, W]\<close> or one unbatched image
  \<open>[C, H, W]\<close>.
\<close>

definition on_images :: "(shape \<Rightarrow> py_error + shape) \<Rightarrow> shape \<Rightarrow> py_error + shape" where
  "on_images f x =
     (case x of
        [c, h, w] \<Rightarrow> and_then (f [1, c, h, w]) (\<lambda>y. Inr (tl y))
      | [n, c, h, w] \<Rightarrow> f x
      | _ \<Rightarrow> Inl TorchError)"

text \<open>
  The convolution of a batch. The library refuses a weight with fewer output channels
  than groups (so a convolution built with zero output channels cannot be applied), an
  input whose channel count is not the weight's, a zero stride, and a kernel larger than
  the padded input.
\<close>

definition conv2d_batch :: "nat \<Rightarrow> nat \<Rightarrow> nat \<Rightarrow> nat \<Rightarrow> nat \<Rightarrow> nat \<Rightarrow> shape \<Rightarrow> py_error + shape" where
  "conv2d_batch cin cout k s p g x =
     (case x of
        [n, c, h, w] \<Rightarrow>
          if s = 0 then Inl TorchError
          else if cout < g then Inl TorchError
          else if c \<noteq> cin then Inl TorchError
          else if h + 2 * p < k \<or> w + 2 * p < k then Inl TorchError
          else Inr [n, cout, window_out h k s p, window_out w k s p]
      | _ \<Rightarrow> Inl TorchError)"

text \<open>
  \<^verbatim>\<open>F.max_pool2d(x, kernel_size, stride, padding)\<close>: the padding is at most half the
  kernel, and only the batch dimension may be zero.
\<close>

definition max_pool2d_batch :: "nat \<Rightarrow> nat \<Rightarrow> nat \<Rightarrow> shape \<Rightarrow> py_error + shape" where
  "max_pool2d_batch k s p x =
     (case x of
        [n, c, h, w] \<Rightarrow>
          if s = 0 \<or> k = 0 then Inl TorchError
          else if k div 2 < p then Inl TorchError
          else if c = 0 \<or> h = 0 \<or> w = 0 then Inl TorchError
          else if h + 2 * p < k \<or> w + 2 * p < k then Inl TorchError
          else Inr [n, c, window_out h k s p, window_out w k s p]
      | _ \<Rightarrow> Inl TorchError)"

definition F_max_pool2d :: "shape \<Rightarrow> nat \<Rightarrow> nat \<Rightarrow> nat \<Rightarrow> py_error + shape" where
  "F_max_pool2d x k s p = on_images (max_pool2d_batch k s p) x"

text \<open>\<^verbatim>\<open>F.adaptive_avg_pool2d(x, (1, 1))\<close>: only the batch dimension may be zero.\<close>

definition avg_pool_1x1_batch :: "shape \<Rightarrow> py_error + shape" where
  "avg_pool_1x1_batch x =
     (case x of
        [n, c, h, w] \<Rightarrow>
          if c = 0 \<or> h = 0 \<or> w = 0 then Inl TorchError else Inr [n, c, 1, 1]
      | _ \<Rightarrow> Inl TorchError)"

definition F_adaptive_avg_pool2d_1x1 :: "shape \<Rightarrow> py_error + shape" where
  "F_adaptive_avg_pool2d_1x1 x = on_images avg_pool_1x1_batch x"

text \<open>\<^verbatim>\<open>F.relu\<close> and \<^verbatim>\<open>F.sigmoid\<close> work element by element and keep the shape.\<close>

definition F_relu :: "shape \<Rightarrow> shape" where
  "F_relu x = x"

definition F_sigmoid :: "shape \<Rightarrow> shape" where
  "F_sigmoid x = x"

text \<open>\<^verbatim>\<open>x.size(i)\<close> for a non-negative literal \<open>i\<close>.\<close>

definition tensor_size :: "shape \<Rightarrow> nat \<Rightarrow> py_error + nat" where
  "tensor_size x i = (if i < length x then Inr (x ! i) else Inl TorchError)"

text \<open>
  \<^verbatim>\<open>x.view(*sizes)\<close>, where at most one size is \<open>-1\<close> and is inferred from the number of
  elements. The library refuses the inference when the other sizes multiply to zero or do
  not divide the number of elements.
\<close>

definition tensor_view :: "shape \<Rightarrow> int list \<Rightarrow> py_error + shape" where
  "tensor_view x sizes =
     (let known = nat (prod_list (filter (\<lambda>d. d \<noteq> - 1) sizes));
          holes = length (filter (\<lambda>d. d = - 1) sizes)
      in if \<exists>d \<in> set sizes. d < - 1 then Inl TorchError
         else if 1 < holes then Inl TorchError
         else if holes = 1 then
           (if known = 0 \<or> numel x mod known \<noteq> 0 then Inl TorchError
            else Inr (map (\<lambda>d. if d = - 1 then numel x div known else nat d) sizes))
         else if known = numel x then Inr (map nat sizes)
         else Inl TorchError)"

text \<open>
  Broadcasting of two shapes, aligned at their last dimension (the lists are reversed
  here): two sizes are compatible when they are equal or one of them is 1.
\<close>

fun broadcast_rev :: "nat list \<Rightarrow> nat list \<Rightarrow> py_error + nat list" where
  "broadcast_rev [] ys = Inr ys"
| "broadcast_rev (x # xs) [] = Inr (x # xs)"
| "broadcast_rev (x # xs) (y # ys) =
     (if x = y \<or> y = 1 then and_then (broadcast_rev xs ys) (\<lambda>r. Inr (x # r))
      else if x = 1 then and_then (broadcast_rev xs ys) (\<lambda>r. Inr (y # r))
      else Inl TorchError)"

definition broadcast :: "shape \<Rightarrow> shape \<Rightarrow> py_error + shape" where
  "broadcast x y = and_then (broadcast_rev (rev x) (rev y)) (\<lambda>r. Inr (rev r))"

text \<open>\<^verbatim>\<open>x * y\<close>: a new tensor of the broadcast shape.\<close>

definition tensor_mul :: "shape \<Rightarrow> shape \<Rightarrow> py_error + shape" where
  "tensor_mul x y = broadcast x y"

text \<open>
  \<^verbatim>\<open>x += y\<close> writes into \<open>x\<close>: the broadcast shape has to be the shape of \<open>x\<close>.
\<close>

definition tensor_iadd :: "shape \<Rightarrow> shape \<Rightarrow> py_error + shape" where
  "tensor_iadd x y =
     and_then (broadcast x y) (\<lambda>r. if r = x then Inr x else Inl TorchError)"

text \<open>
  \<^verbatim>\<open>torch.cat(tensors, dim)\<close>: the tensors agree in every dimension but \<open>dim\<close>, whose
  sizes add up. An empty one-dimensional tensor (shape \<open>[0]\<close>) is skipped, as the library
  does for historical reasons.
\<close>

definition same_except :: "nat \<Rightarrow> shape \<Rightarrow> shape \<Rightarrow> bool" where
  "same_except d x y = (length x = length y \<and> x[d := 0] = y[d := 0])"

definition torch_cat :: "shape list \<Rightarrow> nat \<Rightarrow> py_error + shape" where
  "torch_cat tensors d =
     (case tensors of
        [] \<Rightarrow> Inl TorchError
      | _ # _ \<Rightarrow>
          (case filter (\<lambda>t. t \<noteq> [0]) tensors of
             [] \<Rightarrow> Inr [0]
           | t # ts \<Rightarrow>
               if length t \<le> d then Inl TorchError
               else if list_all (same_except d t) ts
                 then Inr (t[d := sum_list (map (\<lambda>u. u ! d) (t # ts))])
               else Inl TorchError))"

text \<open>
  The linear layer on an input whose last dimension is \<open>in_features\<close>.
\<close>

definition linear_shape :: "nat \<Rightarrow> nat \<Rightarrow> shape \<Rightarrow> py_error + shape" where
  "linear_shape i out x =
     (case rev x of
        [] \<Rightarrow> Inl TorchError
      | c # r \<Rightarrow> if c = i then Inr (rev (out # r)) else Inl TorchError)"

text \<open>
  Batch normalisation of a four-dimensional input with \<open>num_features\<close> channels; in
  training mode every channel needs more than one value.
\<close>

definition batch_norm_shape :: "nat \<Rightarrow> bool \<Rightarrow> shape \<Rightarrow> py_error + shape" where
  "batch_norm_shape num tr x =
     (case x of
        [n, c, h, w] \<Rightarrow>
          if c \<noteq> num then Inl TorchError
          else if tr \<and> n * h * w \<le> 1 then Inl TorchError
          else Inr x
      | _ \<Rightarrow> Inl TorchError)"

text \<open>
  Calling a module returns its result and the module as the call leaves it. Only
  \<^verbatim>\<open>BatchNorm2d\<close> changes: in training mode it counts the batch before it normalises,
  once the input has passed the check of its rank. A \<^verbatim>\<open>Sequential\<close> calls its children in
  order, each on the result of the one before, and an empty one returns its input.
\<close>

fun layer_call :: "layer \<Rightarrow> shape \<Rightarrow> (py_error + shape) \<times> layer"
  and seq_call :: "layer list \<Rightarrow> shape \<Rightarrow> (py_error + shape) \<times> layer list" where
  "layer_call (Conv2d cin cout k s p g) x =
     (on_images (conv2d_batch cin cout k s p g) x, Conv2d cin cout k s p g)"
| "layer_call (BatchNorm2d num tr cnt) x =
     (if length x \<noteq> 4 then (Inl TorchError, BatchNorm2d num tr cnt)
      else (batch_norm_shape num tr x, BatchNorm2d num tr (if tr then cnt + 1 else cnt)))"
| "layer_call ReLU x = (Inr (F_relu x), ReLU)"
| "layer_call (Linear i out) x = (linear_shape i out x, Linear i out)"
| "layer_call (Sequential ls) x = (case seq_call ls x of (r, ls') \<Rightarrow> (r, Sequential ls'))"
| "seq_call [] x = (Inr x, [])"
| "seq_call (l # ls) x =
     (case layer_call l x of
        (Inl e, l') \<Rightarrow> (Inl e, l' # ls)
      | (Inr y, l') \<Rightarrow> (case seq_call ls y of (r, ls') \<Rightarrow> (r, l' # ls')))"

section \<open>Running a method on a module\<close>

text \<open>
  A \<^verbatim>\<open>forward\<close> method runs on the module \<^verbatim>\<open>self\<close>, which the calls of its layers may
  change: a run takes the module and returns a result or an exception together with the
  module as it is afterwards.
\<close>

type_synonym ('m, 'a) run = "'m \<Rightarrow> (py_error + 'a) \<times> 'm"

definition run_return :: "'a \<Rightarrow> ('m, 'a) run" where
  "run_return v = (\<lambda>m. (Inr v, m))"

definition run_lift :: "py_error + 'a \<Rightarrow> ('m, 'a) run" where
  "run_lift r = (\<lambda>m. (r, m))"

definition run_bind :: "('m, 'a) run \<Rightarrow> ('a \<Rightarrow> ('m, 'b) run) \<Rightarrow> ('m, 'b) run" where
  "run_bind r f =
     (\<lambda>m. case r m of (Inl e, m') \<Rightarrow> (Inl e, m') | (Inr v, m') \<Rightarrow> f v m')"

text \<open>\<^verbatim>\<open>self.attr(x)\<close>: call the layer stored in an attribute and store it back.\<close>

definition call_attr :: "('m \<Rightarrow> layer) \<Rightarrow> (layer \<Rightarrow> 'm \<Rightarrow> 'm) \<Rightarrow> shape \<Rightarrow> ('m, shape) run" where
  "call_attr get put x = (\<lambda>m. case layer_call (get m) x of (r, l') \<Rightarrow> (r, put l' m))"

section \<open>ResidualBlock\<close>

record ResidualBlock =
  mainbranch :: layer
  skip :: layer

text \<open>
  The names bound inside \<^verbatim>\<open>ResidualBlock.__init__\<close> (line 24): its parameters and the
  locals it assigns. The parameter is spelt \<^verbatim>\<open>depth_wise\<close>.
\<close>

definition ResidualBlock_scope :: "int \<Rightarrow> int \<Rightarrow> bool \<Rightarrow> bool \<Rightarrow> (string \<times> py_value) list" where
  "ResidualBlock_scope in_channels out_channels depth_wise bottleneck =
     [(''self'', PyObject ''ResidualBlock''),
      (''in_channels'', PyInt in_channels),
      (''out_channels'', PyInt out_channels),
      (''depth_wise'', PyBool depth_wise),
      (''bottleneck'', PyBool bottleneck),
      (''midle_channels'', PyInt (ResidualBlock_midle_channels in_channels out_channels)),
      (''current'', PyInt in_channels),
      (''conv_layers'', PyObject ''ModuleList'')]"

text \<open>
  \<^verbatim>\<open>ResidualBlock.__init__\<close>, lines 24 to 55, statement by statement. Line 39 and line 49
  read \<^verbatim>\<open>nn.ReLu\<close>; line 42 reads the name \<^verbatim>\<open>depthwise\<close>.
\<close>

definition ResidualBlock_init :: "int \<Rightarrow> int \<Rightarrow> bool \<Rightarrow> bool \<Rightarrow> py_error + ResidualBlock" where
  "ResidualBlock_init in_channels out_channels depth_wise bottleneck =
     (let scope = ResidualBlock_scope in_channels out_channels depth_wise bottleneck;
          midle_channels = ResidualBlock_midle_channels in_channels out_channels
      in
      and_then (name_lookup scope ''ResidualBlock'') (\<lambda>_.
      and_then (read_flag scope ''bottleneck'') (\<lambda>b.
      and_then
        (if b then
           and_then (nn_Conv2d in_channels midle_channels 1 1 0 1) (\<lambda>l1.
           and_then (nn_BatchNorm2d midle_channels) (\<lambda>l2.
           and_then (nn_getattr ''ReLu'') (\<lambda>_.
           Inr ([l1, l2, ReLU], midle_channels))))
         else Inr ([], in_channels)) (\<lambda>(conv_layers, current).
      and_then (read_flag scope ''depthwise'') (\<lambda>d.
      and_then
        (if d then
           and_then (nn_Conv2d current current 3 1 1 current) (\<lambda>l1.
           and_then (nn_Conv2d current out_channels 1 1 0 1) (\<lambda>l2.
           Inr (conv_layers @ [l1, l2])))
         else
           and_then (nn_Conv2d current out_channels 3 1 1 1) (\<lambda>l1.
           Inr (conv_layers @ [l1]))) (\<lambda>conv_layers.
      and_then (nn_BatchNorm2d out_channels) (\<lambda>l3.
      and_then (nn_getattr ''ReLu'') (\<lambda>_.
      and_then (nn_Conv2d out_channels out_channels 1 1 0 1) (\<lambda>l4.
      and_then (nn_BatchNorm2d out_channels) (\<lambda>l5.
      and_then
        (if in_channels \<noteq> out_channels
         then nn_Conv2d in_channels out_channels 1 1 0 1
         else Inr (Sequential [])) (\<lambda>skip_layer.
      Inr \<lparr>mainbranch = Sequential (conv_layers @ [l3, ReLU, l4, l5]),
           skip = skip_layer\<rparr>)))))))))))"

text \<open>
  \<^verbatim>\<open>ResidualBlock.forward\<close>, lines 57 to 61:
  \<^verbatim>\<open>
    output = self.mainbranch(x)
    output += self.skip(x)
    return F.relu(output)
  \<close>
\<close>

definition ResidualBlock_forward :: "shape \<Rightarrow> (ResidualBlock, shape) run" where
  "ResidualBlock_forward x =
     run_bind (call_attr mainbranch (\<lambda>l m. m\<lparr>mainbranch := l\<rparr>) x) (\<lambda>output.
     run_bind (call_attr skip (\<lambda>l m. m\<lparr>skip := l\<rparr>) x) (\<lambda>s.
     run_bind (run_lift (tensor_iadd output s)) (\<lambda>output.
     run_return (F_relu output))))"

text \<open>Constructing a block and calling it once: \<^verbatim>\<open>ResidualBlock(...)(x)\<close>.\<close>

definition ResidualBlock_call :: "int \<Rightarrow> int \<Rightarrow> bool \<Rightarrow> bool \<Rightarrow> shape \<Rightarrow> py_error + shape" where
  "ResidualBlock_call in_channels out_channels depth_wise bottleneck x =
     and_then (ResidualBlock_init in_channels out_channels depth_wise bottleneck)
       (\<lambda>m. fst (ResidualBlock_forward x m))"

section \<open>DenseBlock\<close>

record DenseBlock =
  dense :: layer
  regularise :: layer

text \<open>
  The names bound inside \<^verbatim>\<open>DenseBlock.__init__\<close> (line 73). There is no parameter or
  local \<^verbatim>\<open>out_channels\<close>.
\<close>

definition DenseBlock_scope :: "int \<Rightarrow> bool \<Rightarrow> bool \<Rightarrow> (string \<times> py_value) list" where
  "DenseBlock_scope in_channels depth_wise bottleneck =
     [(''self'', PyObject ''DenseBlock''),
      (''in_channels'', PyInt in_channels),
      (''depth_wise'', PyBool depth_wise),
      (''bottleneck'', PyBool bottleneck),
      (''midle_channels'', PyInt (DenseBlock_midle_channels in_channels)),
      (''current'', PyInt in_channels),
      (''conv_layers'', PyObject ''ModuleList'')]"

text \<open>
  \<^verbatim>\<open>DenseBlock.__init__\<close>, lines 73 to 104. Line 91 reads \<^verbatim>\<open>depthwise\<close>, lines 97 and 102
  read \<^verbatim>\<open>out_channels\<close>, lines 88, 98 and 103 read \<^verbatim>\<open>nn.ReLu\<close>, and line 102 multiplies
  a module by 2.
\<close>

definition DenseBlock_init :: "int \<Rightarrow> bool \<Rightarrow> bool \<Rightarrow> py_error + DenseBlock" where
  "DenseBlock_init in_channels depth_wise bottleneck =
     (let scope = DenseBlock_scope in_channels depth_wise bottleneck;
          midle_channels = DenseBlock_midle_channels in_channels
      in
      and_then (name_lookup scope ''DenseBlock'') (\<lambda>_.
      and_then (read_flag scope ''bottleneck'') (\<lambda>b.
      and_then
        (if b then
           and_then (nn_Conv2d in_channels midle_channels 1 1 0 1) (\<lambda>l1.
           and_then (nn_BatchNorm2d midle_channels) (\<lambda>l2.
           and_then (nn_getattr ''ReLu'') (\<lambda>_.
           Inr ([l1, l2, ReLU], midle_channels))))
         else Inr ([], in_channels)) (\<lambda>(conv_layers, current).
      and_then (read_flag scope ''depthwise'') (\<lambda>d.
      and_then
        (if d then
           and_then (nn_Conv2d current current 3 1 1 current) (\<lambda>l1.
           and_then (nn_Conv2d current in_channels 1 1 0 1) (\<lambda>l2.
           Inr (conv_layers @ [l1, l2])))
         else
           and_then (nn_Conv2d current in_channels 3 1 1 1) (\<lambda>l1.
           Inr (conv_layers @ [l1]))) (\<lambda>conv_layers.
      and_then (name_lookup scope ''out_channels'') (\<lambda>v.
      and_then (as_int v) (\<lambda>out_channels.
      and_then (nn_BatchNorm2d out_channels) (\<lambda>l3.
      and_then (nn_getattr ''ReLu'') (\<lambda>_.
      and_then (nn_Conv2d (in_channels * 2) (in_channels * 2) 1 1 0 1) (\<lambda>r1.
      and_then (name_lookup scope ''out_channels'') (\<lambda>v.
      and_then (as_int v) (\<lambda>out_channels.
      and_then (nn_BatchNorm2d out_channels) (\<lambda>_.
      Inl (TypeError ''*'')))))))))))))))"

text \<open>
  \<^verbatim>\<open>DenseBlock.forward\<close>, lines 106 to 112:
  \<^verbatim>\<open>
    output = self.dense(x)
    output = torch.cat((x, output), 1)
    output = self.regularise(output)
    return output
  \<close>
\<close>

definition DenseBlock_forward :: "shape \<Rightarrow> (DenseBlock, shape) run" where
  "DenseBlock_forward x =
     run_bind (call_attr dense (\<lambda>l m. m\<lparr>dense := l\<rparr>) x) (\<lambda>output.
     run_bind (run_lift (torch_cat [x, output] 1)) (\<lambda>output.
     run_bind (call_attr regularise (\<lambda>l m. m\<lparr>regularise := l\<rparr>) output) (\<lambda>output.
     run_return output)))"

definition DenseBlock_call :: "int \<Rightarrow> bool \<Rightarrow> bool \<Rightarrow> shape \<Rightarrow> py_error + shape" where
  "DenseBlock_call in_channels depth_wise bottleneck x =
     and_then (DenseBlock_init in_channels depth_wise bottleneck)
       (\<lambda>m. fst (DenseBlock_forward x m))"

section \<open>ConvBottleneck\<close>

record ConvBottleneck =
  conv_blocks :: layer

definition ConvBottleneck_scope :: "int \<Rightarrow> int \<Rightarrow> bool \<Rightarrow> (string \<times> py_value) list" where
  "ConvBottleneck_scope in_channels downsample depth_wise =
     [(''self'', PyObject ''ConvBottleneck''),
      (''in_channels'', PyInt in_channels),
      (''downsample'', PyInt downsample),
      (''depth_wise'', PyBool depth_wise),
      (''conv_layers'', PyObject ''ModuleList'')]"

text \<open>
  The statements of \<^verbatim>\<open>ConvBottleneck.__init__\<close> after its first one, lines 123 to 139.
  Line 124 is \<^verbatim>\<open>median_channels = in_channels // downsample\<close>; lines 128, 135 and 138
  read \<^verbatim>\<open>nn.ReLu\<close>; line 133 calls \<^verbatim>\<open>conv_layers.append\<close> with keyword arguments only,
  which the method does not take.
\<close>

definition ConvBottleneck_body :: "int \<Rightarrow> int \<Rightarrow> bool \<Rightarrow> py_error + ConvBottleneck" where
  "ConvBottleneck_body in_channels downsample depth_wise =
     (let scope = ConvBottleneck_scope in_channels downsample depth_wise
      in
      and_then (py_floordiv in_channels downsample) (\<lambda>median_channels.
      and_then (nn_Conv2d in_channels median_channels 1 1 0 1) (\<lambda>l1.
      and_then (nn_BatchNorm2d median_channels) (\<lambda>l2.
      and_then (nn_getattr ''ReLu'') (\<lambda>_.
      and_then (read_flag scope ''depth_wise'') (\<lambda>d.
      and_then
        (if d then
           and_then (nn_Conv2d median_channels median_channels 3 1 1 median_channels) (\<lambda>l3.
           and_then (nn_Conv2d median_channels median_channels 1 1 0 1) (\<lambda>l4.
           Inr [l1, l2, ReLU, l3, l4]))
         else Inl (TypeError ''append'')) (\<lambda>conv_layers.
      and_then (nn_BatchNorm2d median_channels) (\<lambda>l5.
      and_then (nn_getattr ''ReLu'') (\<lambda>_.
      and_then (nn_Conv2d median_channels in_channels 1 1 0 1) (\<lambda>l6.
      and_then (nn_BatchNorm2d in_channels) (\<lambda>l7.
      and_then (nn_getattr ''ReLu'') (\<lambda>_.
      Inr \<lparr>conv_blocks = Sequential (conv_layers @ [l5, ReLU, l6, l7, ReLU])\<rparr>))))))))))))"

text \<open>
  \<^verbatim>\<open>ConvBottleneck.__init__\<close>, lines 121 to 139. Its first statement, line 122, is
  \<^verbatim>\<open>super(BottleneckBlock, self).__init__()\<close>, which reads the name
  \<^verbatim>\<open>BottleneckBlock\<close>; the class is called \<^verbatim>\<open>ConvBottleneck\<close>.
\<close>

definition ConvBottleneck_init :: "int \<Rightarrow> int \<Rightarrow> bool \<Rightarrow> py_error + ConvBottleneck" where
  "ConvBottleneck_init in_channels downsample depth_wise =
     and_then
       (name_lookup (ConvBottleneck_scope in_channels downsample depth_wise)
          ''BottleneckBlock'')
       (\<lambda>_. ConvBottleneck_body in_channels downsample depth_wise)"

text \<open>
  \<^verbatim>\<open>ConvBottleneck.forward\<close>, lines 140 to 144:
  \<^verbatim>\<open>
    output = self.conv_blocks(x)
    return output
  \<close>
\<close>

definition ConvBottleneck_forward :: "shape \<Rightarrow> (ConvBottleneck, shape) run" where
  "ConvBottleneck_forward x =
     run_bind (call_attr conv_blocks (\<lambda>l m. m\<lparr>conv_blocks := l\<rparr>) x) (\<lambda>output.
     run_return output)"

section \<open>InceptionBlock\<close>

record InceptionBlock =
  conv1x1_1 :: layer
  conv1x1_2 :: layer
  conv3x3 :: layer
  conv1x1_3 :: layer
  conv5x5 :: layer
  conv1x1_4 :: layer

definition InceptionBlock_scope :: "int \<Rightarrow> (string \<times> py_value) list" where
  "InceptionBlock_scope in_channels =
     [(''self'', PyObject ''InceptionBlock''),
      (''in_channels'', PyInt in_channels),
      (''out_1'', PyInt (in_channels div 4))]"

text \<open>
  \<^verbatim>\<open>InceptionBlock.__init__\<close>, lines 153 to 165. The divisions are by the literals 2
  and 4, so \<^verbatim>\<open>//\<close> is \<open>div\<close>. The layer named \<^verbatim>\<open>conv5x5\<close> has kernel size 1.
\<close>

definition InceptionBlock_init :: "int \<Rightarrow> py_error + InceptionBlock" where
  "InceptionBlock_init in_channels =
     and_then (name_lookup (InceptionBlock_scope in_channels) ''InceptionBlock'') (\<lambda>_.
     and_then (nn_Conv2d in_channels (in_channels div 2) 1 1 0 1) (\<lambda>c1.
     (let out_1 = in_channels div 4 in
     and_then (nn_Conv2d in_channels out_1 1 1 0 1) (\<lambda>c2.
     and_then (nn_Conv2d out_1 (3 * out_1) 3 1 1 1) (\<lambda>c3.
     and_then (nn_Conv2d in_channels out_1 1 1 0 1) (\<lambda>c4.
     and_then (nn_Conv2d out_1 ((3 * out_1) div 2) 1 1 0 1) (\<lambda>c5.
     and_then (nn_Conv2d in_channels out_1 1 1 0 1) (\<lambda>c6.
     Inr \<lparr>conv1x1_1 = c1, conv1x1_2 = c2, conv3x3 = c3, conv1x1_3 = c4, conv5x5 = c5,
          conv1x1_4 = c6\<rparr>))))))))"

text \<open>
  \<^verbatim>\<open>InceptionBlock.forward\<close>, lines 167 to 179:
  \<^verbatim>\<open>
    branch_1 = F.relu(self.conv1x1_1(x))
    branch_2 = F.relu(self.conv3x3(F.relu(self.conv1x1_2(x))))
    branch_3 = F.relu(self.conv5x5(F.relu(self.conv1x1_3(x))))
    branch_4 = F.relu(self.conv1x1_4(F.max_pool2d(x, kernel_size=3, stride=1, padding=1)))
    output = torch.cat((branch_1, branch_2, branch_3, branch_4), 1)
    return output
  \<close>
\<close>

definition InceptionBlock_forward :: "shape \<Rightarrow> (InceptionBlock, shape) run" where
  "InceptionBlock_forward x =
     run_bind (call_attr conv1x1_1 (\<lambda>l m. m\<lparr>conv1x1_1 := l\<rparr>) x) (\<lambda>t1.
     (let branch_1 = F_relu t1 in
     run_bind (call_attr conv1x1_2 (\<lambda>l m. m\<lparr>conv1x1_2 := l\<rparr>) x) (\<lambda>t2.
     run_bind (call_attr conv3x3 (\<lambda>l m. m\<lparr>conv3x3 := l\<rparr>) (F_relu t2)) (\<lambda>t3.
     (let branch_2 = F_relu t3 in
     run_bind (call_attr conv1x1_3 (\<lambda>l m. m\<lparr>conv1x1_3 := l\<rparr>) x) (\<lambda>t4.
     run_bind (call_attr conv5x5 (\<lambda>l m. m\<lparr>conv5x5 := l\<rparr>) (F_relu t4)) (\<lambda>t5.
     (let branch_3 = F_relu t5 in
     run_bind (run_lift (F_max_pool2d x 3 1 1)) (\<lambda>t6.
     run_bind (call_attr conv1x1_4 (\<lambda>l m. m\<lparr>conv1x1_4 := l\<rparr>) t6) (\<lambda>t7.
     (let branch_4 = F_relu t7 in
     run_bind (run_lift (torch_cat [branch_1, branch_2, branch_3, branch_4] 1)) (\<lambda>output.
     run_return output))))))))))))"

definition InceptionBlock_call :: "int \<Rightarrow> shape \<Rightarrow> py_error + shape" where
  "InceptionBlock_call in_channels x =
     and_then (InceptionBlock_init in_channels) (\<lambda>m. fst (InceptionBlock_forward x m))"

section \<open>SqueezeAndExciteBlock\<close>

record SqueezeAndExciteBlock =
  fully_connected_1 :: layer
  fully_connected_2 :: layer

definition SqueezeAndExciteBlock_scope :: "int \<Rightarrow> int \<Rightarrow> (string \<times> py_value) list" where
  "SqueezeAndExciteBlock_scope in_channels downsample =
     [(''self'', PyObject ''SqueezeAndExciteBlock''),
      (''in_channels'', PyInt in_channels),
      (''downsample'', PyInt downsample)]"

text \<open>
  \<^verbatim>\<open>SqueezeAndExciteBlock.__init__\<close>, lines 189 to 193:
  \<^verbatim>\<open>
    super(SqueezeAndExciteBlock,self).__init__()
    median_channels = in_channels // downsample
    self.fully_connected_1 = nn.Linear(in_channels, median_channels)
    self.fully_connected_2 = nn.Linear(median_channels, in_channels)
  \<close>
\<close>

definition SqueezeAndExciteBlock_init :: "int \<Rightarrow> int \<Rightarrow> py_error + SqueezeAndExciteBlock" where
  "SqueezeAndExciteBlock_init in_channels downsample =
     and_then
       (name_lookup (SqueezeAndExciteBlock_scope in_channels downsample)
          ''SqueezeAndExciteBlock'') (\<lambda>_.
     and_then (py_floordiv in_channels downsample) (\<lambda>median_channels.
     and_then (nn_Linear in_channels median_channels) (\<lambda>fc1.
     and_then (nn_Linear median_channels in_channels) (\<lambda>fc2.
     Inr \<lparr>fully_connected_1 = fc1, fully_connected_2 = fc2\<rparr>))))"

text \<open>
  \<^verbatim>\<open>SqueezeAndExciteBlock.forward\<close>, lines 195 to 206:
  \<^verbatim>\<open>
    output = F.adaptive_avg_pool2d(x, (1,1))
    output = output.view(output.size(0), -1)
    output = F.relu(self.fully_connected_1(output))
    output = self.fully_connected_2(output)
    output = F.sigmoid(output)
    output = output.view(output.size(0), -1, 1, 1)
    output = x * output
    output = torch.cat((x, output), 1)
    return output
  \<close>
\<close>

definition SqueezeAndExciteBlock_forward :: "shape \<Rightarrow> (SqueezeAndExciteBlock, shape) run" where
  "SqueezeAndExciteBlock_forward x =
     run_bind (run_lift (F_adaptive_avg_pool2d_1x1 x)) (\<lambda>output.
     run_bind (run_lift (tensor_size output 0)) (\<lambda>n.
     run_bind (run_lift (tensor_view output [int n, - 1])) (\<lambda>output.
     run_bind
       (call_attr fully_connected_1 (\<lambda>l m. m\<lparr>fully_connected_1 := l\<rparr>) output) (\<lambda>t.
     (let output = F_relu t in
     run_bind
       (call_attr fully_connected_2 (\<lambda>l m. m\<lparr>fully_connected_2 := l\<rparr>) output)
       (\<lambda>output.
     (let output = F_sigmoid output in
     run_bind (run_lift (tensor_size output 0)) (\<lambda>n.
     run_bind (run_lift (tensor_view output [int n, - 1, 1, 1])) (\<lambda>output.
     run_bind (run_lift (tensor_mul x output)) (\<lambda>output.
     run_bind (run_lift (torch_cat [x, output] 1)) (\<lambda>output.
     run_return output)))))))))))"

definition SqueezeAndExciteBlock_call :: "int \<Rightarrow> int \<Rightarrow> shape \<Rightarrow> py_error + shape" where
  "SqueezeAndExciteBlock_call in_channels downsample x =
     and_then (SqueezeAndExciteBlock_init in_channels downsample)
       (\<lambda>m. fst (SqueezeAndExciteBlock_forward x m))"

section \<open>Basic rules\<close>

lemma and_then_Inl [simp]: "and_then (Inl e) f = Inl e"
  and and_then_Inr [simp]: "and_then (Inr v) f = f v"
  by (simp_all add: and_then_def)

lemma and_then_always_raises:
  "(\<And>v. \<exists>e. f v = Inl e) \<Longrightarrow> \<exists>e. and_then r f = Inl e"
  by (cases r) simp_all

lemma and_then_error:
  "and_then r f = Inl e \<Longrightarrow> (\<And>e. r = Inl e \<Longrightarrow> P e) \<Longrightarrow> (\<And>v e. f v = Inl e \<Longrightarrow> P e) \<Longrightarrow> P e"
  by (cases r) simp_all

lemma and_then_result:
  "and_then r f = Inr y \<Longrightarrow> (\<And>v. r = Inr v \<Longrightarrow> f v = Inr y \<Longrightarrow> P) \<Longrightarrow> P"
  by (cases r) simp_all

lemma nn_getattr_ReLu: "nn_getattr ''ReLu'' = Inl (AttributeError ''ReLu'')"
  by (simp add: nn_getattr_def nn_attributes_def)

section \<open>The channel arithmetic\<close>

lemma half_up_ceiling: "(if n mod 2 = 0 then n div 2 else n div 2 + 1) = \<lceil>real_of_int n / 2\<rceil>"
  for n :: int
proof (cases "n mod 2 = 0")
  case True
  then obtain k where "n = 2 * k" by (auto simp: mod_eq_0_iff_dvd)
  then show ?thesis by simp
next
  case False
  then have "n mod 2 = 1" by presburger
  then obtain k where k: "n = 2 * k + 1"
    by (metis mult_div_mod_eq)
  have "\<lceil>real_of_int n / 2\<rceil> = k + 1"
    unfolding k by (rule ceiling_unique) (simp_all add: field_simps)
  moreover have "n div 2 = k" unfolding k by simp
  ultimately show ?thesis using False by simp
qed

text \<open>
  C9. The \<^verbatim>\<open>midle_channels\<close> computed in \<^verbatim>\<open>ResidualBlock.__init__\<close> is the ceiling of
  \<open>(in_channels + out_channels) / 2\<close>, and the one computed in
  \<^verbatim>\<open>DenseBlock.__init__\<close> is the ceiling of \<open>in_channels / 2\<close>. It holds for all
  integers, the non-negative ones of the claim among them.
\<close>

theorem midle_channels_is_ceiling:
  "ResidualBlock_midle_channels in_channels out_channels
     = \<lceil>real_of_int (in_channels + out_channels) / 2\<rceil>
   \<and> DenseBlock_midle_channels in_channels = \<lceil>real_of_int in_channels / 2\<rceil>"
  unfolding ResidualBlock_midle_channels_def DenseBlock_midle_channels_def Let_def
  using half_up_ceiling [of "in_channels + out_channels"] half_up_ceiling [of in_channels]
  by simp

section \<open>The constructors that never return\<close>

lemma ResidualBlock_reads:
  "name_lookup (ResidualBlock_scope i out dw bn) ''ResidualBlock'' = Inr (PyClass ''ResidualBlock'')"
  "read_flag (ResidualBlock_scope i out dw bn) ''bottleneck'' = Inr bn"
  "read_flag (ResidualBlock_scope i out dw bn) ''depthwise'' = Inl (NameError ''depthwise'')"
  by (simp_all add: read_flag_def name_lookup_def ResidualBlock_scope_def module_globals_def)

lemma ResidualBlock_init_plain:
  "ResidualBlock_init i out dw False = Inl (NameError ''depthwise'')"
  by (simp add: ResidualBlock_init_def ResidualBlock_reads Let_def)

lemma ResidualBlock_init_bottleneck:
  "\<exists>e. ResidualBlock_init i out dw True = Inl e"
  unfolding ResidualBlock_init_def Let_def
  by (simp add: ResidualBlock_reads nn_getattr_ReLu and_then_always_raises)

lemma DenseBlock_reads:
  "name_lookup (DenseBlock_scope i dw bn) ''DenseBlock'' = Inr (PyClass ''DenseBlock'')"
  "read_flag (DenseBlock_scope i dw bn) ''bottleneck'' = Inr bn"
  "read_flag (DenseBlock_scope i dw bn) ''depthwise'' = Inl (NameError ''depthwise'')"
  "name_lookup (DenseBlock_scope i dw bn) ''out_channels'' = Inl (NameError ''out_channels'')"
  by (simp_all add: read_flag_def name_lookup_def DenseBlock_scope_def module_globals_def)

lemma DenseBlock_init_plain:
  "DenseBlock_init i dw False = Inl (NameError ''depthwise'')"
  by (simp add: DenseBlock_init_def DenseBlock_reads Let_def)

lemma DenseBlock_init_bottleneck:
  "\<exists>e. DenseBlock_init i dw True = Inl e"
  unfolding DenseBlock_init_def Let_def
  by (simp add: DenseBlock_reads nn_getattr_ReLu and_then_always_raises)

lemma ConvBottleneck_init_raises:
  "ConvBottleneck_init i d dw = Inl (NameError ''BottleneckBlock'')"
  by (simp add: ConvBottleneck_init_def name_lookup_def ConvBottleneck_scope_def
      module_globals_def)

lemma ConvBottleneck_body_zero:
  "ConvBottleneck_body i 0 dw = Inl ZeroDivisionError"
  by (simp add: ConvBottleneck_body_def py_floordiv_def Let_def)

text \<open>
  C1. The claim is that each of the five classes can be constructed from its channel
  counts. Three of them cannot, for any arguments: \<^verbatim>\<open>ResidualBlock.__init__\<close> and
  \<^verbatim>\<open>DenseBlock.__init__\<close> read the unbound name \<^verbatim>\<open>depthwise\<close> (with
  \<^verbatim>\<open>bottleneck=True\<close> they raise earlier, at \<^verbatim>\<open>nn.ReLu\<close> or inside the library), and
  \<^verbatim>\<open>ConvBottleneck.__init__\<close> reads the unbound name \<^verbatim>\<open>BottleneckBlock\<close> in its first
  statement.
\<close>

theorem three_constructors_always_raise:
  "ResidualBlock_init in_channels out_channels depth_wise False = Inl (NameError ''depthwise'')
   \<and> (\<exists>e. ResidualBlock_init in_channels out_channels depth_wise True = Inl e)
   \<and> DenseBlock_init in_channels depth_wise False = Inl (NameError ''depthwise'')
   \<and> (\<exists>e. DenseBlock_init in_channels depth_wise True = Inl e)
   \<and> ConvBottleneck_init in_channels downsample depth_wise
       = Inl (NameError ''BottleneckBlock'')"
  using ResidualBlock_init_plain ResidualBlock_init_bottleneck DenseBlock_init_plain
    DenseBlock_init_bottleneck ConvBottleneck_init_raises
  by simp

text \<open>
  C2. The claim is that \<^verbatim>\<open>ResidualBlock.forward\<close> returns a tensor with
  \<^verbatim>\<open>out_channels\<close> channels. No \<^verbatim>\<open>ResidualBlock\<close> is ever constructed, so constructing
  one and calling it on any input ends in an exception.
\<close>

theorem ResidualBlock_call_always_raises:
  "ResidualBlock_call in_channels out_channels depth_wise False x
     = Inl (NameError ''depthwise'')
   \<and> (\<exists>e. ResidualBlock_call in_channels out_channels depth_wise True x = Inl e)"
proof
  show "ResidualBlock_call in_channels out_channels depth_wise False x
      = Inl (NameError ''depthwise'')"
    by (simp add: ResidualBlock_call_def ResidualBlock_init_plain)
  obtain e where "ResidualBlock_init in_channels out_channels depth_wise True = Inl e"
    using ResidualBlock_init_bottleneck by blast
  then show "\<exists>e. ResidualBlock_call in_channels out_channels depth_wise True x = Inl e"
    by (simp add: ResidualBlock_call_def)
qed

text \<open>
  C3. The claim is that \<^verbatim>\<open>DenseBlock.forward\<close> returns a tensor with twice
  \<^verbatim>\<open>in_channels\<close> channels. No \<^verbatim>\<open>DenseBlock\<close> is ever constructed, so constructing one
  and calling it on any input ends in an exception.
\<close>

theorem DenseBlock_call_always_raises:
  "DenseBlock_call in_channels depth_wise False x = Inl (NameError ''depthwise'')
   \<and> (\<exists>e. DenseBlock_call in_channels depth_wise True x = Inl e)"
proof
  show "DenseBlock_call in_channels depth_wise False x = Inl (NameError ''depthwise'')"
    by (simp add: DenseBlock_call_def DenseBlock_init_plain)
  obtain e where "DenseBlock_init in_channels depth_wise True = Inl e"
    using DenseBlock_init_bottleneck by blast
  then show "\<exists>e. DenseBlock_call in_channels depth_wise True x = Inl e"
    by (simp add: DenseBlock_call_def)
qed

section \<open>The division by \<^verbatim>\<open>downsample\<close>\<close>

lemma SqueezeAndExciteBlock_lookup:
  "name_lookup (SqueezeAndExciteBlock_scope i d) ''SqueezeAndExciteBlock''
     = Inr (PyClass ''SqueezeAndExciteBlock'')"
  by (simp add: name_lookup_def SqueezeAndExciteBlock_scope_def module_globals_def)

lemma SqueezeAndExciteBlock_init_eq:
  "SqueezeAndExciteBlock_init i d =
     (if d = 0 then Inl ZeroDivisionError
      else if i < 0 \<or> i div d < 0 then Inl TorchError
      else Inr \<lparr>fully_connected_1 = Linear (nat i) (nat (i div d)),
                fully_connected_2 = Linear (nat (i div d)) (nat i)\<rparr>)"
  by (simp add: SqueezeAndExciteBlock_init_def SqueezeAndExciteBlock_lookup py_floordiv_def
      nn_Linear_def)

text \<open>
  C10. \<^verbatim>\<open>SqueezeAndExciteBlock.__init__\<close> raises \<^verbatim>\<open>ZeroDivisionError\<close> for
  \<^verbatim>\<open>downsample = 0\<close>; for \<^verbatim>\<open>in_channels \<ge> 1\<close> and \<^verbatim>\<open>downsample \<ge> 1\<close> the division is
  defined and the constructor returns the module with its two linear layers. The same
  division stands in \<^verbatim>\<open>ConvBottleneck.__init__\<close>, unguarded: the statements of that
  constructor from line 123 on raise \<^verbatim>\<open>ZeroDivisionError\<close> for \<^verbatim>\<open>downsample = 0\<close>. (They
  are never reached, because line 122 raises \<^verbatim>\<open>NameError\<close> first.)
\<close>

theorem downsample_division:
  "SqueezeAndExciteBlock_init in_channels 0 = Inl ZeroDivisionError
   \<and> (1 \<le> in_channels \<and> 1 \<le> downsample \<longrightarrow>
        py_floordiv in_channels downsample = Inr (in_channels div downsample)
        \<and> SqueezeAndExciteBlock_init in_channels downsample =
          Inr \<lparr>fully_connected_1 = Linear (nat in_channels) (nat (in_channels div downsample)),
               fully_connected_2 = Linear (nat (in_channels div downsample)) (nat in_channels)\<rparr>)
   \<and> ConvBottleneck_body in_channels 0 depth_wise = Inl ZeroDivisionError
   \<and> ConvBottleneck_init in_channels 0 depth_wise = Inl (NameError ''BottleneckBlock'')"
proof -
  have "0 \<le> in_channels div downsample" if "1 \<le> in_channels" "1 \<le> downsample"
    using that by (simp add: pos_imp_zdiv_nonneg_iff)
  then show ?thesis
    by (auto simp add: SqueezeAndExciteBlock_init_eq ConvBottleneck_body_zero
        ConvBottleneck_init_raises py_floordiv_def)
qed

theorem downsample_division_witness:
  "(1::int) \<le> 4 \<and> (1::int) \<le> 2
   \<and> py_floordiv 4 2 = Inr 2
   \<and> SqueezeAndExciteBlock_init 4 2
       = Inr \<lparr>fully_connected_1 = Linear 4 2, fully_connected_2 = Linear 2 4\<rparr>"
  using downsample_division [of 4 2] by simp

section \<open>Errors of the library operations\<close>

lemma on_images_error:
  assumes "on_images f x = Inl e" and "\<And>y e. f y = Inl e \<Longrightarrow> e = TorchError"
  shows "e = TorchError"
  using assms unfolding on_images_def
  by (auto split: list.splits elim!: and_then_error)

lemma conv2d_batch_error: "conv2d_batch cin cout k s p g x = Inl e \<Longrightarrow> e = TorchError"
  unfolding conv2d_batch_def by (auto split: list.splits if_splits)

lemma conv_images_error:
  "on_images (conv2d_batch cin cout k s p g) x = Inl e \<Longrightarrow> e = TorchError"
  by (erule on_images_error) (rule conv2d_batch_error)

lemma max_pool2d_error: "F_max_pool2d x k s p = Inl e \<Longrightarrow> e = TorchError"
  unfolding F_max_pool2d_def
  by (erule on_images_error) (auto simp: max_pool2d_batch_def split: list.splits if_splits)

lemma avg_pool_error: "F_adaptive_avg_pool2d_1x1 x = Inl e \<Longrightarrow> e = TorchError"
  unfolding F_adaptive_avg_pool2d_1x1_def
  by (erule on_images_error) (auto simp: avg_pool_1x1_batch_def split: list.splits if_splits)

lemma tensor_size_error: "tensor_size x i = Inl e \<Longrightarrow> e = TorchError"
  by (auto simp: tensor_size_def split: if_splits)

lemma tensor_view_error: "tensor_view x sizes = Inl e \<Longrightarrow> e = TorchError"
  by (auto simp: tensor_view_def Let_def split: if_splits)

lemma broadcast_rev_error: "broadcast_rev xs ys = Inl e \<Longrightarrow> e = TorchError"
  by (induction xs ys arbitrary: e rule: broadcast_rev.induct)
    (auto split: if_splits elim!: and_then_error)

lemma tensor_mul_error: "tensor_mul x y = Inl e \<Longrightarrow> e = TorchError"
  unfolding tensor_mul_def broadcast_def
  by (auto elim!: and_then_error dest: broadcast_rev_error)

lemma torch_cat_error: "torch_cat ts d = Inl e \<Longrightarrow> e = TorchError"
  by (auto simp: torch_cat_def split: list.splits if_splits)

lemma linear_shape_error: "linear_shape i out x = Inl e \<Longrightarrow> e = TorchError"
  by (auto simp: linear_shape_def split: list.splits if_splits)

section \<open>Rules for runs\<close>


lemma run_lift_frame: "snd (run_lift r m) = m"
  and run_return_frame: "snd (run_return v m) = m"
  by (simp_all add: run_lift_def run_return_def)

lemma call_attr_frame:
  "snd (layer_call (get m) x) = get m \<Longrightarrow> put (get m) m = m \<Longrightarrow> snd (call_attr get put x m) = m"
  unfolding call_attr_def by (cases "layer_call (get m) x") simp

lemma run_bind_error:
  assumes "fst (run_bind r f m) = Inl e"
    and "snd (r m) = m"
    and "\<And>e. fst (r m) = Inl e \<Longrightarrow> P e"
    and "\<And>v e. fst (f v m) = Inl e \<Longrightarrow> P e"
  shows "P e"
  using assms unfolding run_bind_def
  by (cases "r m") (auto split: sum.splits)

lemma call_attr_fst: "fst (call_attr get put x m) = fst (layer_call (get m) x)"
  unfolding call_attr_def by (cases "layer_call (get m) x") simp

section \<open>InceptionBlock\<close>

lemma name_lookup_InceptionBlock:
  "name_lookup (InceptionBlock_scope i) ''InceptionBlock'' = Inr (PyClass ''InceptionBlock'')"
  by (simp add: name_lookup_def InceptionBlock_scope_def module_globals_def)

lemma nn_Conv2d_result:
  "nn_Conv2d i out k s p g = Inl e \<Longrightarrow> e = TorchError"
  "nn_Conv2d i out k s p g = Inr l \<Longrightarrow> \<exists>a b c d e f. l = Conv2d a b c d e f"
  by (auto simp: nn_Conv2d_def split: if_splits)

lemma nn_Conv2d_plain:
  "nn_Conv2d i out k s p 1 =
     (if i < 0 \<or> out < 0 then Inl TorchError else Inr (Conv2d (nat i) (nat out) k s p 1))"
  by (simp add: nn_Conv2d_def)

lemma InceptionBlock_init_error: "InceptionBlock_init i = Inl e \<Longrightarrow> e = TorchError"
  unfolding InceptionBlock_init_def Let_def name_lookup_InceptionBlock
  by (auto elim!: and_then_error dest: nn_Conv2d_result(1))

lemma InceptionBlock_init_layers:
  assumes "InceptionBlock_init i = Inr m"
  shows "\<exists>a b c d e f. conv1x1_1 m = Conv2d a b c d e f"
    "\<exists>a b c d e f. conv1x1_2 m = Conv2d a b c d e f"
    "\<exists>a b c d e f. conv3x3 m = Conv2d a b c d e f"
    "\<exists>a b c d e f. conv1x1_3 m = Conv2d a b c d e f"
    "\<exists>a b c d e f. conv5x5 m = Conv2d a b c d e f"
    "\<exists>a b c d e f. conv1x1_4 m = Conv2d a b c d e f"
  using assms unfolding InceptionBlock_init_def Let_def name_lookup_InceptionBlock
  by (auto elim!: and_then_result dest: nn_Conv2d_result(2))

lemma InceptionBlock_init_eq:
  "InceptionBlock_init i =
     (if i < 0 then Inl TorchError else
      Inr \<lparr>conv1x1_1 = Conv2d (nat i) (nat (i div 2)) 1 1 0 1,
          conv1x1_2 = Conv2d (nat i) (nat (i div 4)) 1 1 0 1,
          conv3x3 = Conv2d (nat (i div 4)) (nat (3 * (i div 4))) 3 1 1 1,
          conv1x1_3 = Conv2d (nat i) (nat (i div 4)) 1 1 0 1,
          conv5x5 = Conv2d (nat (i div 4)) (nat ((3 * (i div 4)) div 2)) 1 1 0 1,
          conv1x1_4 = Conv2d (nat i) (nat (i div 4)) 1 1 0 1\<rparr>)"
proof (cases "i < 0")
  case True
  then show ?thesis
    by (simp add: InceptionBlock_init_def name_lookup_InceptionBlock nn_Conv2d_plain)
next
  case False
  then have q: "0 \<le> i div 4" by linarith
  have "0 \<le> i div 2" using False by linarith
  moreover have "0 \<le> 3 * (i div 4)" using q by linarith
  moreover have "0 \<le> (3 * (i div 4)) div 2" using q by linarith
  ultimately show ?thesis using False q
    by (simp add: InceptionBlock_init_def name_lookup_InceptionBlock nn_Conv2d_plain Let_def)
qed


lemma InceptionBlock_forward_error:
  assumes "\<exists>a b c d e f. conv1x1_1 m = Conv2d a b c d e f"
    "\<exists>a b c d e f. conv1x1_2 m = Conv2d a b c d e f"
    "\<exists>a b c d e f. conv3x3 m = Conv2d a b c d e f"
    "\<exists>a b c d e f. conv1x1_3 m = Conv2d a b c d e f"
    "\<exists>a b c d e f. conv5x5 m = Conv2d a b c d e f"
    "\<exists>a b c d e f. conv1x1_4 m = Conv2d a b c d e f"
    and "fst (InceptionBlock_forward x m) = Inl err"
  shows "err = TorchError"
  using assms(7) unfolding InceptionBlock_forward_def Let_def
  apply (elim run_bind_error)
  using assms(1-6)
                      apply (auto simp: call_attr_fst run_lift_def run_return_def
      intro!: call_attr_frame run_lift_frame
      dest: conv_images_error max_pool2d_error torch_cat_error)
  done

lemma conv1x1_4d:
  "on_images (conv2d_batch c cout (Suc 0) (Suc 0) 0 (Suc 0)) [n, c, h, w] =
     (if cout = 0 \<or> h = 0 \<or> w = 0 then Inl TorchError else Inr [n, cout, h, w])"
  by (auto simp add: on_images_def conv2d_batch_def window_out_def)

lemma conv3x3_4d:
  "on_images (conv2d_batch c cout 3 (Suc 0) (Suc 0) (Suc 0)) [n, c, h, w] =
     (if cout = 0 \<or> h = 0 \<or> w = 0 then Inl TorchError else Inr [n, cout, h, w])"
  by (auto simp add: on_images_def conv2d_batch_def window_out_def)

lemma max_pool_4d:
  "F_max_pool2d [n, c, h, w] 3 (Suc 0) (Suc 0) =
     (if c = 0 \<or> h = 0 \<or> w = 0 then Inl TorchError else Inr [n, c, h, w])"
  by (auto simp add: F_max_pool2d_def on_images_def max_pool2d_batch_def window_out_def)

lemma cat4:
  "torch_cat [[n, a, h, w], [n, b, h, w], [n, c, h, w], [n, d, h, w]] (Suc 0) =
     Inr [n, a + b + c + d, h, w]"
  by (simp add: torch_cat_def same_except_def)

lemma InceptionBlock_forward_shape:
  "fst (InceptionBlock_forward [n, c, h, w]
      \<lparr>conv1x1_1 = Conv2d c c1 1 1 0 1,
        conv1x1_2 = Conv2d c c2 1 1 0 1,
        conv3x3 = Conv2d c2 c3 3 1 1 1,
        conv1x1_3 = Conv2d c c2 1 1 0 1,
        conv5x5 = Conv2d c2 c5 1 1 0 1,
        conv1x1_4 = Conv2d c c2 1 1 0 1\<rparr>) =
     (if (0 < c1 \<and> 0 < c2 \<and> 0 < c3 \<and> 0 < c5 \<and> 0 < c) \<and> 0 < h \<and> 0 < w
      then Inr [n, c1 + c3 + c5 + c2, h, w] else Inl TorchError)"
  by (simp add: InceptionBlock_forward_def run_bind_def run_lift_def run_return_def
      call_attr_def conv1x1_4d conv3x3_4d max_pool_4d cat4 F_relu_def Let_def)

lemma channel_positivity:
  fixes i :: int
  assumes "0 \<le> i"
  shows "(0 < nat (i div 2) \<and> 0 < nat (i div 4) \<and> 0 < nat (3 * (i div 4))
          \<and> 0 < nat ((3 * (i div 4)) div 2) \<and> 0 < nat i) \<longleftrightarrow> 4 \<le> i"
proof (cases "4 \<le> i")
  case True
  then have q: "1 \<le> i div 4" by linarith
  have "0 < nat (i div 2)" using True by linarith
  moreover have "0 < nat (i div 4)" using q by linarith
  moreover have "0 < nat (3 * (i div 4))" using q by linarith
  moreover have "0 < nat ((3 * (i div 4)) div 2)" using q by linarith
  moreover have "0 < nat i" using True by linarith
  ultimately show ?thesis using True by simp
next
  case False
  with assms have "i div 4 = 0" by simp
  with False show ?thesis by simp
qed

lemma channel_sum:
  fixes i :: int
  assumes "4 \<le> i"
  shows "nat (i div 2) + nat (3 * (i div 4)) + nat ((3 * (i div 4)) div 2) + nat (i div 4)
     = nat (i div 2 + 3 * (i div 4) + (3 * (i div 4)) div 2 + i div 4)"
proof -
  have nn: "nat a + nat b + nat c + nat d = nat (a + b + c + d)"
    if "0 \<le> a" "0 \<le> b" "0 \<le> c" "0 \<le> d" for a b c d :: int
    using that by linarith
  have q: "1 \<le> i div 4" using assms by linarith
  have "0 \<le> i div 2" using assms by linarith
  moreover have "0 \<le> 3 * (i div 4)" using q by linarith
  moreover have "0 \<le> (3 * (i div 4)) div 2" using q by linarith
  moreover have "0 \<le> i div 4" using q by linarith
  ultimately show ?thesis by (rule nn)
qed

text \<open>
  C4, as stated: for every 4-D input with \<^verbatim>\<open>in_channels\<close> channels the block returns a
  tensor. It fails for an RGB image: \<^verbatim>\<open>InceptionBlock(3)\<close> is built with
  \<^verbatim>\<open>out_1 = 3 // 4 = 0\<close>, so three of its convolutions have no output channel, and the
  library refuses to apply them.
\<close>

theorem InceptionBlock_rgb_counterexample:
  "InceptionBlock_call 3 [1, 3, 8, 8] = Inl TorchError"
  by (simp add: InceptionBlock_call_def InceptionBlock_init_def name_lookup_InceptionBlock
      nn_Conv2d_def InceptionBlock_forward_def run_bind_def run_lift_def run_return_def
      call_attr_def on_images_def conv2d_batch_def window_out_def F_relu_def Let_def)

text \<open>
  C4, amended. On a 4-D input \<open>[n, in_channels, h, w]\<close>: when \<^verbatim>\<open>in_channels\<close> is at least 4
  and the height and the width are not zero, constructing an \<^verbatim>\<open>InceptionBlock\<close> and
  calling it returns the concatenation of the four branches, a tensor of shape
  \<open>[n, in_channels//2 + 3*(in_channels//4) + (3*(in_channels//4))//2 + in_channels//4, h, w]\<close>;
  in every other case the tensor library raises.
\<close>

theorem InceptionBlock_output_shape:
  "InceptionBlock_call in_channels [n, nat in_channels, h, w] =
     (if 4 \<le> in_channels \<and> 0 < h \<and> 0 < w
      then Inr [n, nat (in_channels div 2 + 3 * (in_channels div 4)
                          + (3 * (in_channels div 4)) div 2 + in_channels div 4), h, w]
      else Inl TorchError)"
proof (cases "in_channels < 0")
  case True
  then show ?thesis by (simp add: InceptionBlock_call_def InceptionBlock_init_eq)
next
  case False
  then have nonneg: "0 \<le> in_channels" by simp
  have "InceptionBlock_call in_channels [n, nat in_channels, h, w] =
      (if 4 \<le> in_channels \<and> 0 < h \<and> 0 < w
       then Inr [n, nat (in_channels div 2) + nat (3 * (in_channels div 4))
                     + nat ((3 * (in_channels div 4)) div 2) + nat (in_channels div 4), h, w]
       else Inl TorchError)"
    using False
    by (simp only: InceptionBlock_call_def InceptionBlock_init_eq if_False and_then_Inr
        InceptionBlock_forward_shape channel_positivity [OF nonneg])
  then show ?thesis
    using channel_sum [of in_channels] by (cases "4 \<le> in_channels") simp_all
qed

theorem InceptionBlock_output_shape_witness:
  "InceptionBlock_call 8 [2, 8, 5, 7] = Inr [2, 15, 5, 7]"
  using InceptionBlock_output_shape [of 8 2 5 7] by simp

section \<open>SqueezeAndExciteBlock\<close>

lemma avg_pool_4d:
  "F_adaptive_avg_pool2d_1x1 [n, c, h, w] =
     (if c = 0 \<or> h = 0 \<or> w = 0 then Inl TorchError else Inr [n, c, 1, 1])"
  by (simp add: F_adaptive_avg_pool2d_1x1_def on_images_def avg_pool_1x1_batch_def)

lemma view_flatten:
  "tensor_view [n, c, Suc 0, Suc 0] [int n, - 1] =
     (if n = 0 then Inl TorchError else Inr [n, c])"
  by (simp add: tensor_view_def numel_def Let_def)

lemma view_flatten_empty: "tensor_view [0, c, Suc 0, Suc 0] [0, - 1] = Inl TorchError"
  by (simp add: tensor_view_def numel_def Let_def)

lemma view_unflatten:
  "tensor_view [n, c] [int n, - 1, 1, 1] =
     (if n = 0 then Inl TorchError else Inr [n, c, Suc 0, Suc 0])"
  by (simp add: tensor_view_def numel_def Let_def)

lemma linear_2d: "linear_shape c out [n, c] = Inr [n, out]"
  by (simp add: linear_shape_def)

lemma mul_gate: "tensor_mul [n, c, h, w] [n, c, Suc 0, Suc 0] = Inr [n, c, h, w]"
  by (simp add: tensor_mul_def broadcast_def)

lemma cat2: "torch_cat [[n, c, h, w], [n, c, h, w]] (Suc 0) = Inr [n, 2 * c, h, w]"
  by (simp add: torch_cat_def same_except_def)

lemma SqueezeAndExciteBlock_forward_shape:
  "fst (SqueezeAndExciteBlock_forward [n, c, h, w]
         \<lparr>fully_connected_1 = Linear c mid, fully_connected_2 = Linear mid c\<rparr>) =
     (if 0 < n \<and> 0 < c \<and> 0 < h \<and> 0 < w then Inr [n, 2 * c, h, w] else Inl TorchError)"
  by (simp add: SqueezeAndExciteBlock_forward_def run_bind_def run_lift_def run_return_def
      call_attr_def avg_pool_4d tensor_size_def view_flatten view_flatten_empty view_unflatten
      linear_2d mul_gate cat2 F_relu_def F_sigmoid_def Let_def)

lemma SqueezeAndExciteBlock_init_layers:
  assumes "SqueezeAndExciteBlock_init i d = Inr m"
  shows "m = \<lparr>fully_connected_1 = Linear (nat i) (nat (i div d)),
              fully_connected_2 = Linear (nat (i div d)) (nat i)\<rparr>"
  using assms by (auto simp: SqueezeAndExciteBlock_init_eq split: if_splits)


lemma SqueezeAndExciteBlock_forward_error:
  assumes "\<exists>a b. fully_connected_1 m = Linear a b" "\<exists>a b. fully_connected_2 m = Linear a b"
    and "fst (SqueezeAndExciteBlock_forward x m) = Inl err"
  shows "err = TorchError"
  using assms(3) unfolding SqueezeAndExciteBlock_forward_def Let_def
  apply (elim run_bind_error)
  using assms(1,2)
                      apply (auto simp: call_attr_fst run_lift_def run_return_def
      intro!: call_attr_frame run_lift_frame
      dest: linear_shape_error avg_pool_error tensor_size_error tensor_view_error
        tensor_mul_error torch_cat_error)
  done



section \<open>Where the exceptions come from\<close>

text \<open>
  C5, as stated: no exception is produced by the repository's own code, every one
  originates in the tensor library. It fails for \<^verbatim>\<open>SqueezeAndExciteBlock(4, 0)\<close>: the
  expression \<^verbatim>\<open>in_channels // downsample\<close> of line 191 raises \<^verbatim>\<open>ZeroDivisionError\<close>
  before any call into the library.
\<close>

theorem own_division_counterexample:
  "SqueezeAndExciteBlock_init 4 0 = Inl ZeroDivisionError \<and> \<not> from_library ZeroDivisionError"
  by (simp add: SqueezeAndExciteBlock_init_eq)

text \<open>
  C5, amended. For \<^verbatim>\<open>InceptionBlock\<close> and \<^verbatim>\<open>SqueezeAndExciteBlock\<close>, with any constructor
  arguments and any input tensor, every exception of \<^verbatim>\<open>__init__\<close> and of \<^verbatim>\<open>forward\<close>
  originates in the tensor library, with one exception: \<^verbatim>\<open>SqueezeAndExciteBlock.__init__\<close>
  raises \<^verbatim>\<open>ZeroDivisionError\<close> from its own division when \<^verbatim>\<open>downsample\<close> is 0.
\<close>

theorem errors_come_from_library:
  "(InceptionBlock_init i1 = Inl e1 \<longrightarrow> from_library e1)
   \<and> (InceptionBlock_init i2 = Inr m2 \<longrightarrow>
        fst (InceptionBlock_forward x2 m2) = Inl e2 \<longrightarrow> from_library e2)
   \<and> (SqueezeAndExciteBlock_init i3 d3 = Inl e3 \<longrightarrow>
        (if d3 = 0 then e3 = ZeroDivisionError else from_library e3))
   \<and> (SqueezeAndExciteBlock_init i4 d4 = Inr m4 \<longrightarrow>
        fst (SqueezeAndExciteBlock_forward x4 m4) = Inl e4 \<longrightarrow> from_library e4)"
proof (intro conjI impI)
  assume "InceptionBlock_init i1 = Inl e1"
  then have "e1 = TorchError" by (rule InceptionBlock_init_error)
  then show "from_library e1" by simp
next
  assume "InceptionBlock_init i2 = Inr m2" and "fst (InceptionBlock_forward x2 m2) = Inl e2"
  then have "e2 = TorchError"
    by (intro InceptionBlock_forward_error [of m2 x2 e2] InceptionBlock_init_layers [of i2 m2])
  then show "from_library e2" by simp
next
  assume "SqueezeAndExciteBlock_init i3 d3 = Inl e3"
  then show "if d3 = 0 then e3 = ZeroDivisionError else from_library e3"
    by (auto simp: SqueezeAndExciteBlock_init_eq split: if_splits)
next
  assume init: "SqueezeAndExciteBlock_init i4 d4 = Inr m4"
    and err: "fst (SqueezeAndExciteBlock_forward x4 m4) = Inl e4"
  have "e4 = TorchError"
    by (rule SqueezeAndExciteBlock_forward_error [OF _ _ err])
      (simp_all add: SqueezeAndExciteBlock_init_layers [OF init])
  then show "from_library e4" by simp
qed

theorem errors_come_from_library_witness:
  "InceptionBlock_init (- 3) = Inl TorchError
   \<and> fst (InceptionBlock_forward [1, 3, 8, 8]
            \<lparr>conv1x1_1 = Conv2d 3 1 1 1 0 1, conv1x1_2 = Conv2d 3 0 1 1 0 1,
              conv3x3 = Conv2d 0 0 3 1 1 1, conv1x1_3 = Conv2d 3 0 1 1 0 1,
              conv5x5 = Conv2d 0 0 1 1 0 1, conv1x1_4 = Conv2d 3 0 1 1 0 1\<rparr>) = Inl TorchError
   \<and> SqueezeAndExciteBlock_init 4 0 = Inl ZeroDivisionError
   \<and> SqueezeAndExciteBlock_init 4 (- 2) = Inl TorchError
   \<and> fst (SqueezeAndExciteBlock_forward [0, 4, 5, 6]
            \<lparr>fully_connected_1 = Linear 4 2, fully_connected_2 = Linear 2 4\<rparr>) = Inl TorchError
   \<and> from_library TorchError"
proof -
  let ?m2 = "\<lparr>conv1x1_1 = Conv2d 3 1 1 1 0 1, conv1x1_2 = Conv2d 3 0 1 1 0 1,
              conv3x3 = Conv2d 0 0 3 1 1 1, conv1x1_3 = Conv2d 3 0 1 1 0 1,
              conv5x5 = Conv2d 0 0 1 1 0 1, conv1x1_4 = Conv2d 3 0 1 1 0 1\<rparr>"
  let ?m4 = "\<lparr>fully_connected_1 = Linear 4 2, fully_connected_2 = Linear 2 4\<rparr>"
  have a: "InceptionBlock_init (- 3) = Inl TorchError"
    by (simp add: InceptionBlock_init_eq)
  have b: "InceptionBlock_init 3 = Inr ?m2"
    by (simp add: InceptionBlock_init_eq)
  have c: "fst (InceptionBlock_forward [1, 3, 8, 8] ?m2) = Inl TorchError"
    using InceptionBlock_forward_shape [of 1 3 8 8 1 0 0 0] by simp
  have d: "SqueezeAndExciteBlock_init 4 0 = Inl ZeroDivisionError"
    "SqueezeAndExciteBlock_init 4 (- 2) = Inl TorchError"
    "SqueezeAndExciteBlock_init 4 2 = Inr ?m4"
    by (simp_all add: SqueezeAndExciteBlock_init_eq)
  have e: "fst (SqueezeAndExciteBlock_forward [0, 4, 5, 6] ?m4) = Inl TorchError"
    using SqueezeAndExciteBlock_forward_shape [of 0 4 5 6 2] by simp
  from errors_come_from_library [of "- 3" TorchError 3 ?m2 "[1, 3, 8, 8]" TorchError
      4 "- 2" TorchError 4 2 ?m4 "[0, 4, 5, 6]" TorchError] a b c d e
  show ?thesis by simp
qed

section \<open>What a call leaves behind\<close>



end
